theory Spec2Isabelle
  imports Main "HOL-Library.Sublist"
begin

section \<open>Data model (types.ts)\<close>

text \<open>
  The provider tag \<open>'gemini' | 'dalle'\<close> and the review status
  \<open>'pending' | 'approved' | 'rejected'\<close> are closed string unions in the source.
\<close>

datatype model = Gemini | Dalle

datatype status = Pending | Approved | Rejected

text \<open>
  \<open>MemeConcept\<close>, \<open>ApprovedMemeConcept\<close> and \<open>GeneratedMeme\<close>. In the source
  \<open>GeneratedMeme\<close> extends \<open>MemeConcept\<close> and repeats the field \<open>modelUsed\<close>;
  structurally it carries every field of \<open>ApprovedMemeConcept\<close>, so the record is
  written as an extension of that one. The field \<open>id\<close> is called \<open>meme_id\<close>.
\<close>

record meme_concept =
  topText :: string
  bottomText :: string
  imagePrompt :: string

record approved_meme_concept = meme_concept +
  modelUsed :: model

record generated_meme = approved_meme_concept +
  meme_id :: string
  imageUrl :: string
  altText :: string
  status :: status

text \<open>
  A value thrown by JavaScript code: an \<open>Error\<close> instance with its message, or any
  other thrown value. A function that may throw (an async function whose promise may
  reject) returns \<open>thrown + 'a\<close>, with \<open>Inl\<close> for the throw.
\<close>

datatype thrown = JsError string | NonError

section \<open>feedbackService.ts: the preference estimator\<close>

record model_preference =
  gemini :: nat
  dalle :: nat

text \<open>
  \<open>getModelPreference\<close>, on the list that \<open>getApprovedMemes\<close> returned.
\<close>

definition getModelPreference :: "approved_meme_concept list \<Rightarrow> model_preference" where
  "getModelPreference approved =
     (if length approved = 0 then \<lparr>gemini = 3, dalle = 2\<rparr>
      else
        let dalleCount = length (filter (\<lambda>m. modelUsed m = Dalle) approved);
            geminiCount = length approved - dalleCount
        in if dalleCount > geminiCount then \<lparr>gemini = 2, dalle = 3\<rparr>
           else \<lparr>gemini = 3, dalle = 2\<rparr>)"

section \<open>JavaScript string operations used by the code\<close>

text \<open>
  Strings are lists of 8-bit characters. \<open>s.includes(sub)\<close>, \<open>s.startsWith(p)\<close>,
  \<open>s.toLowerCase()\<close> (on the ASCII letters), \<open>s.trim()\<close>, \<open>s.split(c)\<close> for a
  one-character separator, and \<open>s.replace(sub, rep)\<close> with a string pattern, which
  replaces the first occurrence only.
\<close>

fun str_includes :: "string \<Rightarrow> string \<Rightarrow> bool" where
  "str_includes [] sub = (sub = [])"
| "str_includes (c # cs) sub = (prefix sub (c # cs) \<or> str_includes cs sub)"

definition startsWith :: "string \<Rightarrow> string \<Rightarrow> bool" where
  "startsWith s p = prefix p s"

definition toLowerChar :: "char \<Rightarrow> char" where
  "toLowerChar c =
     (case map_of (zip ''ABCDEFGHIJKLMNOPQRSTUVWXYZ'' ''abcdefghijklmnopqrstuvwxyz'') c of
        None \<Rightarrow> c | Some l \<Rightarrow> l)"

definition toLowerCase :: "string \<Rightarrow> string" where
  "toLowerCase s = map toLowerChar s"

definition is_space :: "char \<Rightarrow> bool" where
  "is_space c = (c \<in> set [CHR '' '', CHR 0x09, CHR 0x0A, CHR 0x0B, CHR 0x0C, CHR 0x0D, CHR 0xA0])"

definition trim :: "string \<Rightarrow> string" where
  "trim s = rev (dropWhile is_space (rev (dropWhile is_space s)))"

fun split_on :: "char \<Rightarrow> string \<Rightarrow> string list" where
  "split_on sep [] = [[]]"
| "split_on sep (c # cs) =
     (if c = sep then [] # split_on sep cs
      else (case split_on sep cs of [] \<Rightarrow> [[c]] | seg # segs \<Rightarrow> (c # seg) # segs))"

fun replace_first :: "string \<Rightarrow> string \<Rightarrow> string \<Rightarrow> string" where
  "replace_first sub rep [] = (if sub = [] then rep else [])"
| "replace_first sub rep (c # cs) =
     (if prefix sub (c # cs) then rep @ drop (length sub) (c # cs)
      else c # replace_first sub rep cs)"

section \<open>geminiService.ts: image synthesis, alt text and batch assembly\<close>

definition GEMINI_PLACEHOLDER_IMAGE_URL :: string where
  "GEMINI_PLACEHOLDER_IMAGE_URL =
     ''data:image/svg+xml;base64,PHN2ZyB3aWR0aD0iNTEyIiBoZWlnaHQ9IjUxMiIgdmlld0JveD0iMCAwIDUxMiA1MTIiIHhtbG5zPSJodHRwOi8vd3d3LnczLm9yZy8yMDAwL3N2ZyI+PHJlY3QgZmlsbD0iIzExMTgyNyIgd2lkdGg9IjUxMiIgaGVpZhtPSI1MTIiLz48dGV4dCB4PSI1MCUiIHk9IjQ4JSIgZG9taW5hbnQtYmFzZWxpbmU9Im1pZGRsZSIgdGV4dC1hbmNob3I9Im1pZGRsZSIgZm9udC1mYW1pbHk9InNhbnMtc2VyaWYiIGZvbnQtc2l6ZT0iMzJweCIgZmlsbD0iI2Y4NzE3MSIgZm9udC13ZWlnaHQ9ImJvbGQiPlRIRSBBSSBHT1QgU0hZPC90ZXh0Pjx0ZXh0IHg9IjUwJSIgeT0iNTglIiBkb21pbmFhbnQtYmFzZWxpbmU9Im1pZGRsZSIgdGV4dC1hbmNob3I9Im1pZGRsZSIgZm9udC1mYW1pbHk9InNhbnMtc2VyaWYiIGZvbnQtc2l6ZT0iMThweCIgZmlsbD0iI2VhYTNmIj5JbWFnZSBnZW5lcmF0aW9uIGZhaWxlZC48L3RleHQ+PC9zdmc+''"

definition DALLE_PLACEHOLDER_IMAGE_URL :: string where
  "DALLE_PLACEHOLDER_IMAGE_URL =
     ''data:image/svg+xml;base64,PHN2ZyB3aWR0aD0iNTEyIiBoZWlnaHQ9IjUxMiIgdmlld0JveD0iMCAwIDUxMiA1MTIiIHhtbG5zPSJodHRwOi8vd3d3LnczLm9yZy8yMDAwL3N2ZyI+PHJlY3QgZmlsbD0iIzFlMWI0YiIgd2lkdGg9IjUxMiIgaGVpZ2h0PSI1MTIiLz48dGV4dCB4PSI1MCUiIHk9IjQ4JSIgZG9taW5hbnQtYmFzZWxpbmU9Im1pZGRsZSIgdGV4dC1hbmNob3I9Im1pZGRsZSIgZm9udC1mYW1pbHk9InNhbnMtc2VyaWYiIGZvbnQtc2l6ZT0iMzJweCIgZmlsbD0iI2E3OGJmYSIgZm9udC1wZWlnaHQ9ImJvbGQiPkRBTFktRSAzIEFUIFRIRSBFQVNFTDwvdGV4dD48dGV4dCB4PSI1MCUiIHk9IjU4JSIgZG9taW5hbnQtYmFzZWxpbmU9Im1pZGRsZSIgdGV4dC1hbmNob3I9Im1pZGRsZSIgZm9udC1mYW1pbHk9InNhbnMtc2VyaWYiIGZvbnQtc2l6ZT0iMThweCIgZmlsbD0iI2M0YjVmZCI+U2ltdWxhdGluZyBPcGVuQUkgaW1hZ2UgZ2VuZXJhdGlvbi48L3RleHQ+PC9zdmc+''"

text \<open>
  What the external services answer is not decided by the code, so it is a parameter.
  \<^item> The image call to Gemini either makes the \<open>try\<close> block throw (\<open>GenaiThrows\<close>: the
    request rejects, or reading the response throws), or returns a response whose
    \<open>candidates?.[0]?.content?.parts\<close> is undefined (\<open>None\<close>) or a list of parts, each
    with or without \<open>inlineData\<close>.
  \<^item> The \<open>fetch\<close> to the DALL-E endpoint rejects (\<open>NetworkError\<close>), or resolves to a
    response that is not \<open>ok\<close> (status and raw body), or to an \<open>ok\<close> response.
    Reading an \<open>ok\<close> response with \<open>await apiResponse.json()\<close> and
    \<open>data.data?.[0]?.b64_json\<close> either throws (\<open>BodyThrows\<close>: \<open>json()\<close> rejects, or
    the parsed body is null) or yields the \<open>b64_json\<close> field, \<open>None\<close> when undefined.
  \<^item> The text call for the alt text either makes the \<open>try\<close> block throw or returns
    \<open>response.text\<close>.
\<close>

record inline_data =
  data :: string
  mimeType :: string

datatype genai_image_outcome =
  GenaiThrows thrown
| GenaiResponse "inline_data option list option"

datatype body_outcome = BodyThrows thrown | BodyImage "string option"

datatype fetch_outcome =
  NetworkError thrown
| HttpNotOk nat string
| HttpOk body_outcome

datatype text_outcome = TextThrows thrown | TextResponse string

text \<open>
  The services as one concept's pipeline sees them: the Gemini image call by image
  prompt, the DALL-E call by image prompt and key, the alt-text call by concept (the
  request texts are fixed templates around these).
\<close>

record services =
  gemini_image :: "string \<Rightarrow> genai_image_outcome"
  dalle_fetch :: "string \<Rightarrow> string \<Rightarrow> fetch_outcome"
  gemini_text :: "meme_concept \<Rightarrow> text_outcome"

text \<open>
  Modelled from the spec: \<open>crypto.randomUUID()\<close> is the platform's generator, not code
  of the repository. The spec calls what it returns a fresh unique id, assigned at
  creation and never reused. The model is the family of the ids that the generator
  returns to the pipelines of one batch, by the index of the pipeline that makes the
  call, and no id occurs in it twice.
\<close>

typedef uuid_source = "{f :: nat \<Rightarrow> string. inj f}"
  morphisms uuid_of_call Abs_uuid_source
proof
  show "(\<lambda>n. replicate n CHR ''x'') \<in> {f :: nat \<Rightarrow> string. inj f}"
    by (simp add: inj_def)
qed

definition generateImage :: "services \<Rightarrow> string \<Rightarrow> thrown + string" where
  "generateImage env prompt =
     (case gemini_image env prompt of
        GenaiThrows e \<Rightarrow> Inr GEMINI_PLACEHOLDER_IMAGE_URL
      | GenaiResponse parts \<Rightarrow>
          (case (case parts of None \<Rightarrow> None | Some ps \<Rightarrow> find (\<lambda>p. p \<noteq> None) ps) of
             Some (Some d) \<Rightarrow> Inr (''data:'' @ mimeType d @ '';base64,'' @ data d)
           | _ \<Rightarrow> Inr GEMINI_PLACEHOLDER_IMAGE_URL))"

definition generateImageWithDalle :: "services \<Rightarrow> string \<Rightarrow> string \<Rightarrow> thrown + string" where
  "generateImageWithDalle env prompt apiKey =
     (if apiKey = [] then Inr DALLE_PLACEHOLDER_IMAGE_URL
      else
        (case dalle_fetch env prompt apiKey of
           NetworkError e \<Rightarrow> Inr DALLE_PLACEHOLDER_IMAGE_URL
         | HttpNotOk st body \<Rightarrow> Inr DALLE_PLACEHOLDER_IMAGE_URL
         | HttpOk body \<Rightarrow>
             (case body of
                BodyThrows e \<Rightarrow> Inl e
              | BodyImage None \<Rightarrow> Inr DALLE_PLACEHOLDER_IMAGE_URL
              | BodyImage (Some base64Image) \<Rightarrow>
                  if base64Image = [] then Inr DALLE_PLACEHOLDER_IMAGE_URL
                  else Inr (''data:image/png;base64,'' @ base64Image))))"

text \<open>The result \<open>{ imageUrl, modelUsed }\<close> is the pair \<open>(imageUrl, modelUsed)\<close>.\<close>

definition generateMemeImageWithFallback ::
  "services \<Rightarrow> string \<Rightarrow> model \<Rightarrow> string \<Rightarrow> thrown + (string \<times> model)" where
  "generateMemeImageWithFallback env prompt model openAiApiKey =
     (if model = Dalle \<and> openAiApiKey = [] then
        (case generateImage env prompt of
           Inl e \<Rightarrow> Inl e
         | Inr url \<Rightarrow> Inr (url, Gemini))
      else
        (case (if model = Dalle then generateImageWithDalle env prompt openAiApiKey
               else generateImage env prompt) of
           Inl e \<Rightarrow> Inl e
         | Inr url \<Rightarrow> Inr (url, model)))"

text \<open>The regular expression \<open>/^"|"$/g\<close> removes one leading and one trailing quote.\<close>

definition strip_quotes :: "string \<Rightarrow> string" where
  "strip_quotes s =
     (let t = (case s of c # cs \<Rightarrow> if c = CHR 0x22 then cs else s | [] \<Rightarrow> [])
      in if t \<noteq> [] \<and> last t = CHR 0x22 then butlast t else t)"

definition altTextFallback :: "meme_concept \<Rightarrow> string" where
  "altTextFallback concept =
     ''Kiss My Face New York meme: '' @ topText concept @ '' - '' @ bottomText concept
       @ ''. Image: '' @ take 50 (imagePrompt concept) @ ''...''"

definition generateImageAltText :: "services \<Rightarrow> meme_concept \<Rightarrow> thrown + string" where
  "generateImageAltText env concept =
     (case gemini_text env concept of
        TextThrows e \<Rightarrow> Inr (altTextFallback concept)
      | TextResponse t \<Rightarrow> Inr (strip_quotes (trim t)))"

definition generatorSchedule :: "model_preference \<Rightarrow> model list" where
  "generatorSchedule modelPreference =
     replicate (gemini modelPreference) Gemini @ replicate (dalle modelPreference) Dalle"

text \<open>
  \<open>generatorSchedule[index] || 'gemini'\<close>: an index past the end reads \<open>undefined\<close>,
  which is falsy; the tags themselves are non-empty strings.
\<close>

definition scheduledModel :: "model list \<Rightarrow> nat \<Rightarrow> model" where
  "scheduledModel schedule index =
     (if index < length schedule then schedule ! index else Gemini)"

text \<open>The callback of \<open>concepts.map\<close>, one pipeline per concept.\<close>

definition memePromise ::
  "services \<Rightarrow> uuid_source \<Rightarrow> model list \<Rightarrow> string \<Rightarrow> meme_concept \<Rightarrow> nat
     \<Rightarrow> thrown + generated_meme" where
  "memePromise env uuids schedule openAiApiKey concept index =
     (case generateMemeImageWithFallback env (imagePrompt concept)
             (scheduledModel schedule index) openAiApiKey of
        Inl e \<Rightarrow> Inl e
      | Inr (url, used) \<Rightarrow>
          (case generateImageAltText env concept of
             Inl e \<Rightarrow> Inl e
           | Inr alt \<Rightarrow>
               Inr \<lparr>topText = topText concept, bottomText = bottomText concept,
                    imagePrompt = imagePrompt concept, modelUsed = used,
                    meme_id = uuid_of_call uuids index, imageUrl = url, altText = alt,
                    status = Pending\<rparr>))"

text \<open>
  \<open>Promise.all\<close>: the results in input order when every promise fulfils. When some
  reject, the source rejects with the rejection that settles first; the model takes
  the one of lowest index.
\<close>

fun promise_all :: "(thrown + 'a) list \<Rightarrow> thrown + 'a list" where
  "promise_all [] = Inr []"
| "promise_all (r # rs) =
     (case r of
        Inl e \<Rightarrow> Inl e
      | Inr x \<Rightarrow> (case promise_all rs of Inl e \<Rightarrow> Inl e | Inr xs \<Rightarrow> Inr (x # xs)))"

text \<open>
  \<open>processConceptsIntoMemes\<close>. The awaited \<open>conceptsPromise\<close> rejects (\<open>Inl\<close>), or
  yields no list (\<open>None\<close>, for null or undefined) or a list of concepts. Pipeline
  number \<open>index\<close> talks to \<open>envs index\<close> and draws its id from \<open>uuids\<close>.
\<close>

definition processConceptsIntoMemes ::
  "(nat \<Rightarrow> services) \<Rightarrow> uuid_source \<Rightarrow> thrown + meme_concept list option
     \<Rightarrow> model_preference \<Rightarrow> string \<Rightarrow> thrown + generated_meme list" where
  "processConceptsIntoMemes envs uuids conceptsPromise modelPreference openAiApiKey =
     (case conceptsPromise of
        Inl e \<Rightarrow> Inl e
      | Inr None \<Rightarrow> Inl (JsError ''AI did not return any meme concepts.'')
      | Inr (Some concepts) \<Rightarrow>
          if length concepts = 0 then Inl (JsError ''AI did not return any meme concepts.'')
          else
            promise_all
              (map (\<lambda>(index, concept).
                      memePromise (envs index) uuids (generatorSchedule modelPreference)
                        openAiApiKey concept index)
                 (enumerate 0 concepts)))"

text \<open>
  \<open>getApprovedMemes\<close>: the empty list without credentials or when the query fails,
  the rows of the query otherwise.
\<close>

definition getApprovedMemes ::
  "thrown + approved_meme_concept list \<Rightarrow> string \<Rightarrow> string \<Rightarrow> approved_meme_concept list" where
  "getApprovedMemes query supabaseUrl supabaseAnonKey =
     (if supabaseUrl = [] \<or> supabaseAnonKey = [] then []
      else (case query of Inl e \<Rightarrow> [] | Inr rows \<Rightarrow> rows))"

text \<open>
  \<open>generateMemesFromHeadline\<close> and \<open>generateMemesFromInspiration\<close> differ only in the
  concept request whose promise they pass on.
\<close>

definition generateMemes ::
  "(nat \<Rightarrow> services) \<Rightarrow> uuid_source \<Rightarrow> thrown + approved_meme_concept list
     \<Rightarrow> thrown + meme_concept list option \<Rightarrow> string \<Rightarrow> string \<Rightarrow> string
     \<Rightarrow> thrown + generated_meme list" where
  "generateMemes envs uuids query conceptsPromise openAiApiKey supabaseUrl supabaseAnonKey =
     processConceptsIntoMemes envs uuids conceptsPromise
       (getModelPreference (getApprovedMemes query supabaseUrl supabaseAnonKey)) openAiApiKey"

section \<open>feedbackService.ts: the approval store\<close>

text \<open>
  A row of the table \<open>approved_memes\<close>, and the calls that \<open>addApprovedMeme\<close> makes
  on the Supabase client, recorded in the order in which they are made.
\<close>

record meme_row =
  row_id :: string
  top_text :: string
  bottom_text :: string
  image_prompt :: string
  model_used :: model
  image_url :: string

datatype store_call =
  Upload string string
| GetPublicUrl string
| Insert meme_row

text \<open>
  The store as \<open>addApprovedMeme\<close> sees it: \<open>createClient\<close> of the Supabase library,
  which \<open>getSupabaseClient\<close> calls when it holds no client for these parameters and
  which may throw (on a URL that is not http or https), \<open>None\<close> when a client is
  there; the browser's \<open>atob\<close>, which throws on text that is not base64; the upload of a blob to a path, answering with the
  message of \<open>uploadError\<close> or with none; the public URL of a path; the insert of a
  row, answering with the message of \<open>insertError\<close> or with none.
\<close>

record store =
  createClient :: "string \<Rightarrow> string \<Rightarrow> thrown option"
  atob :: "string \<Rightarrow> thrown + string"
  upload :: "string \<Rightarrow> string \<Rightarrow> string option"
  getPublicUrl :: "string \<Rightarrow> string"
  insert_row :: "meme_row \<Rightarrow> string option"

definition POLICY_DENIED_UPLOAD :: string where
  "POLICY_DENIED_UPLOAD =
     ''Failed to upload image: Supabase storage is blocking the upload due to a missing or incomplete security policy. Please run the full 'Storage Policy SQL' from the Admin panel, which must include INSERT, UPDATE, and SELECT permissions.''"

definition BUCKET_NOT_FOUND_UPLOAD :: string where
  "BUCKET_NOT_FOUND_UPLOAD =
     ''Failed to upload image: The 'memes' storage bucket was not found. Please verify your Supabase setup.''"

definition UPLOAD_FAILED :: string where
  "UPLOAD_FAILED = ''Failed to upload meme image to the backend.''"

definition POLICY_DENIED_INSERT :: string where
  "POLICY_DENIED_INSERT =
     ''Failed to save metadata: The 'approved_memes' table is blocking the action due to a missing security policy. Please run the full 'Table Policy SQL' from the Admin panel.''"

text \<open>The error thrown for an \<open>uploadError\<close> with the given message.\<close>

definition uploadFailure :: "string \<Rightarrow> thrown" where
  "uploadFailure message =
     (let errorMessage = toLowerCase message
      in if str_includes errorMessage ''security policy''
            \<or> str_includes errorMessage ''violates row-level security''
         then JsError POLICY_DENIED_UPLOAD
         else if str_includes errorMessage ''not found'' then JsError BUCKET_NOT_FOUND_UPLOAD
         else JsError UPLOAD_FAILED)"

text \<open>The error thrown for an \<open>insertError\<close> with the given message.\<close>

definition insertFailure :: "string \<Rightarrow> thrown" where
  "insertFailure message =
     (let errorMessage = toLowerCase message
      in if str_includes errorMessage ''security policy for table''
            \<or> str_includes errorMessage ''violates row-level security''
         then JsError POLICY_DENIED_INSERT
         else JsError (''Failed to save meme metadata: '' @ message))"

text \<open>
  \<open>xs[1]\<close> of a split: the second segment, or \<open>undefined\<close>, which \<open>atob\<close> reads as
  the text \<open>undefined\<close>.
\<close>

definition second_segment :: "string list \<Rightarrow> string" where
  "second_segment segs = (case segs of _ # s # _ \<Rightarrow> s | _ \<Rightarrow> ''undefined'')"

text \<open>
  \<open>addApprovedMeme\<close>, with \<open>getSupabaseClient\<close> and \<open>base64ToBlob\<close> inlined.
  It returns what the promise settles to, and the calls made on the client.
\<close>

definition addApprovedMeme ::
  "store \<Rightarrow> generated_meme \<Rightarrow> string \<Rightarrow> string \<Rightarrow> (thrown + unit) \<times> store_call list" where
  "addApprovedMeme env newMeme supabaseUrl supabaseAnonKey =
     (if supabaseUrl = [] \<or> supabaseAnonKey = []
      then (Inl (JsError ''Supabase URL and Anon Key are required.''), [])
      else
        (case createClient env supabaseUrl supabaseAnonKey of
           Some e \<Rightarrow> (Inl e, [])
         | None \<Rightarrow>
        let mime = (if startsWith (imageUrl newMeme) ''data:image/png''
                    then ''image/png'' else ''image/jpeg'')
        in (case atob env (second_segment (split_on CHR '','' (imageUrl newMeme))) of
              Inl e \<Rightarrow> (Inl e, [])
            | Inr imageBlob \<Rightarrow>
                let filePath = ''public/'' @ meme_id newMeme @ ''.''
                                 @ second_segment (split_on CHR ''/'' mime)
                in (case upload env filePath imageBlob of
                      Some message \<Rightarrow> (Inl (uploadFailure message), [Upload filePath imageBlob])
                    | None \<Rightarrow>
                        let publicImageUrl = getPublicUrl env filePath;
                            row = \<lparr>row_id = meme_id newMeme, top_text = topText newMeme,
                                   bottom_text = bottomText newMeme,
                                   image_prompt = imagePrompt newMeme,
                                   model_used = modelUsed newMeme,
                                   image_url = publicImageUrl\<rparr>;
                            calls = [Upload filePath imageBlob, GetPublicUrl filePath, Insert row]
                        in (case insert_row env row of
                              Some message \<Rightarrow> (Inl (insertFailure message), calls)
                            | None \<Rightarrow> (Inr (), calls))))))"

section \<open>App.tsx: the review session\<close>

definition getFriendlyErrorMessage :: "thrown \<Rightarrow> string" where
  "getFriendlyErrorMessage err =
     (case err of
        JsError message \<Rightarrow>
          if str_includes message ''OpenAI Billing Limit Reached'' then message
          else if str_includes (toLowerCase message) ''quota''
                  \<or> str_includes message ''RESOURCE_EXHAUSTED''
          then ''API Quota Exceeded: Please check your plan and billing details with the API provider.''
          else if str_includes message ''DALL-E API Error:''
                  \<or> str_includes message ''Invalid response from OpenAI API''
          then ''OpenAI Error: '' @ replace_first ''DALL-E API Error: '' [] message
          else if str_includes message ''Invalid response from Gemini API''
          then ''Gemini Error: '' @ message
          else ''An AI service failed. This could be due to a temporary outage or a rejected prompt. Please adjust your input or try again later.''
      | NonError \<Rightarrow> ''An unknown error occurred. Please check the console and try again.'')"

text \<open>The part of the component's state that approval reads and writes.\<close>

record app_state =
  memes :: "generated_meme list"
  error :: "string option"
  isSupabaseConnected :: bool
  supabaseUrl :: string
  supabaseAnonKey :: string

definition handleStatusChange :: "app_state \<Rightarrow> string \<Rightarrow> status \<Rightarrow> app_state" where
  "handleStatusChange st i s =
     st\<lparr>memes := map (\<lambda>meme. if meme_id meme = i then meme\<lparr>status := s\<rparr> else meme) (memes st)\<rparr>"

definition handleApprove :: "store \<Rightarrow> app_state \<Rightarrow> string \<Rightarrow> app_state" where
  "handleApprove env st i =
     (if \<not> isSupabaseConnected st
      then st\<lparr>error := Some ''Please test and verify your Supabase connection in the admin panel.''\<rparr>
      else
        (case find (\<lambda>meme. meme_id meme = i) (memes st) of
           None \<Rightarrow> st
         | Some memeToApprove \<Rightarrow>
             let st1 = handleStatusChange st i Approved
             in (case fst (addApprovedMeme env memeToApprove (supabaseUrl st) (supabaseAnonKey st)) of
                   Inr u \<Rightarrow> st1
                 | Inl err \<Rightarrow>
                     (handleStatusChange st1 i Pending)\<lparr>error := Some (getFriendlyErrorMessage err)\<rparr>)))"

definition handleReject :: "app_state \<Rightarrow> string \<Rightarrow> app_state" where
  "handleReject st i = handleStatusChange st i Rejected"

section \<open>Auxiliary predicates on the services\<close>

text \<open>
  Reading the DALL-E response throws, and: the pipeline of a concept is scheduled on
  dalle, has a key, and reading the response throws.
\<close>

definition body_throws :: "fetch_outcome \<Rightarrow> bool" where
  "body_throws r = (case r of HttpOk (BodyThrows e) \<Rightarrow> True | _ \<Rightarrow> False)"

definition pipeline_throws :: "services \<Rightarrow> model list \<Rightarrow> string \<Rightarrow> meme_concept \<Rightarrow> nat \<Rightarrow> bool" where
  "pipeline_throws env schedule openAiApiKey concept index =
     (scheduledModel schedule index = Dalle \<and> openAiApiKey \<noteq> []
        \<and> body_throws (dalle_fetch env (imagePrompt concept) openAiApiKey))"

section \<open>Concrete inputs\<close>

text \<open>
  A batch of five concepts; a family of generated ids; services that answer every image request, with a DALL-E
  response that is not ok for one prompt and an alt-text failure for another; services
  whose ok DALL-E responses cannot be read; an approval history; an artifact, a store
  whose upload answers with a given error or none, and a session holding two artifacts.
\<close>

definition w_concept :: "string \<Rightarrow> meme_concept" where
  "w_concept p = \<lparr>topText = ''Me at 3am'', bottomText = ''Still on the dance floor'',
                  imagePrompt = p\<rparr>"

definition w_concepts :: "meme_concept list" where
  "w_concepts = [w_concept ''a disco ball in sunglasses'', w_concept ''a cat on the decks'',
                 w_concept ''a glitter storm'', w_concept ''a neon flamingo'',
                 w_concept ''a subway car full of confetti'']"

definition w_services :: services where
  "w_services =
     \<lparr>gemini_image = (\<lambda>p. GenaiResponse (Some [None, Some \<lparr>data = ''QUJD'', mimeType = ''image/png''\<rparr>])),
      dalle_fetch = (\<lambda>p k. if p = ''a neon flamingo'' then HttpNotOk 429 ''{}''
                            else HttpOk (BodyImage (Some ''REVG''))),
      gemini_text = (\<lambda>c. if imagePrompt c = ''a glitter storm'' then TextThrows NonError
                          else TextResponse '' A pop art meme '')\<rparr>"

definition w_envs :: "nat \<Rightarrow> services" where
  "w_envs i = w_services"

definition w_uuids :: uuid_source where
  "w_uuids = Abs_uuid_source (\<lambda>i. ''uuid-'' @ replicate i CHR ''x'')"

definition bad_envs :: "nat \<Rightarrow> services" where
  "bad_envs i =
     (w_envs i)\<lparr>dalle_fetch := (\<lambda>p k. HttpOk (BodyThrows (JsError ''Unexpected end of JSON input'')))\<rparr>"

definition w_history :: "approved_meme_concept list" where
  "w_history = [\<lparr>topText = ''a'', bottomText = ''b'', imagePrompt = ''c'', modelUsed = Dalle\<rparr>,
                \<lparr>topText = ''d'', bottomText = ''e'', imagePrompt = ''f'', modelUsed = Gemini\<rparr>,
                \<lparr>topText = ''g'', bottomText = ''h'', imagePrompt = ''i'', modelUsed = Dalle\<rparr>]"

definition w_meme :: generated_meme where
  "w_meme = \<lparr>topText = ''Me at 3am'', bottomText = ''Still on the dance floor'',
             imagePrompt = ''a disco ball in sunglasses'', modelUsed = Gemini,
             meme_id = ''uuid-1'', imageUrl = ''data:image/png;base64,QUJD'',
             altText = ''A pop art meme'', status = Pending\<rparr>"

definition w_store :: "string option \<Rightarrow> store" where
  "w_store uploadError =
     \<lparr>createClient = (\<lambda>url key. None),
      atob = (\<lambda>s. if s = ''QUJD'' then Inr ''ABC'' else Inl (JsError ''InvalidCharacterError'')),
      upload = (\<lambda>path blob. uploadError),
      getPublicUrl = (\<lambda>path. ''https://kmf.supabase.co/storage/v1/object/public/memes/'' @ path),
      insert_row = (\<lambda>row. None)\<rparr>"

definition w_state :: app_state where
  "w_state = \<lparr>memes = [w_meme, w_meme\<lparr>meme_id := ''uuid-2'', status := Rejected\<rparr>],
              error = None, isSupabaseConnected = True,
              supabaseUrl = ''https://kmf.supabase.co'', supabaseAnonKey = ''anon-key''\<rparr>"

definition denied_message :: string where
  "denied_message = ''new row violates row-level security policy''"

section \<open>The estimator\<close>

lemma count_split:
  "length (filter (\<lambda>m. modelUsed m = Gemini) approved)
     = length approved - length (filter (\<lambda>m. modelUsed m = Dalle) approved)"
proof (induction approved)
  case Nil
  show ?case by simp
next
  case (Cons a as)
  have le: "length (filter (\<lambda>m. modelUsed m = Dalle) as) \<le> length as"
    by (rule length_filter_le)
  show ?case
  proof (cases "modelUsed a")
    case Gemini
    with Cons le show ?thesis by (simp add: Suc_diff_le)
  next
    case Dalle
    with Cons show ?thesis by simp
  qed
qed

text \<open>
  Claim C5. On an empty history the estimator returns gemini 3, dalle 2. On any
  history it returns gemini 2, dalle 3 exactly when the entries made by dalle
  strictly outnumber the entries made by gemini, and gemini 3, dalle 2 otherwise,
  ties included.
\<close>

theorem getModelPreference_policy:
  "getModelPreference [] = \<lparr>gemini = 3, dalle = 2\<rparr> \<and>
   getModelPreference approved =
     (if length (filter (\<lambda>m. modelUsed m = Dalle) approved)
           > length (filter (\<lambda>m. modelUsed m = Gemini) approved)
      then \<lparr>gemini = 2, dalle = 3\<rparr> else \<lparr>gemini = 3, dalle = 2\<rparr>)"
  by (simp add: getModelPreference_def count_split Let_def)

lemma preference_sum: "gemini (getModelPreference history) + dalle (getModelPreference history) = 5"
  by (simp add: getModelPreference_def Let_def)

section \<open>Image and alt-text paths\<close>

lemma generateImage_never_raises:
  "\<exists>url. generateImage env prompt = Inr url"
  by (simp add: generateImage_def split: genai_image_outcome.split option.split)

lemma generateImage_placeholder:
  "gemini_image env prompt = GenaiThrows e \<or> gemini_image env prompt = GenaiResponse None
     \<or> (\<exists>ps. gemini_image env prompt = GenaiResponse (Some ps) \<and> (\<forall>p \<in> set ps. p = None))
   \<Longrightarrow> generateImage env prompt = Inr GEMINI_PLACEHOLDER_IMAGE_URL"
proof -
  assume a: "gemini_image env prompt = GenaiThrows e \<or> gemini_image env prompt = GenaiResponse None
     \<or> (\<exists>ps. gemini_image env prompt = GenaiResponse (Some ps) \<and> (\<forall>p \<in> set ps. p = None))"
  have none: "find (\<lambda>p. p \<noteq> None) ps = None" if "\<forall>p \<in> set ps. p = None"
    for ps :: "inline_data option list"
    using that by (simp add: find_None_iff)
  from a none show ?thesis
    by (auto simp add: generateImage_def)
qed

lemma generateImageAltText_never_raises:
  "\<exists>alt. generateImageAltText env concept = Inr alt"
  by (simp add: generateImageAltText_def split: text_outcome.split)

lemma generateImageAltText_fallback:
  "gemini_text env concept = TextThrows e
   \<Longrightarrow> generateImageAltText env concept = Inr (altTextFallback concept)"
  by (simp add: generateImageAltText_def)

lemma generateImageWithDalle_raises_iff:
  "(\<exists>e. generateImageWithDalle env prompt apiKey = Inl e)
     \<longleftrightarrow> apiKey \<noteq> [] \<and> (\<exists>e. dalle_fetch env prompt apiKey = HttpOk (BodyThrows e))"
  by (auto simp add: generateImageWithDalle_def
      split: fetch_outcome.splits body_outcome.splits option.splits if_splits)

text \<open>
  Claim C6, as amended. Called with an empty API key, \<open>generateImageWithDalle\<close>
  returns the DALL-E placeholder image and raises nothing.
\<close>

theorem generateImageWithDalle_no_key:
  "generateImageWithDalle env prompt [] = Inr DALLE_PLACEHOLDER_IMAGE_URL"
  by (simp add: generateImageWithDalle_def)

text \<open>
  Claim C6 as stated fails: with an empty key the call returns, it does not raise.
\<close>

theorem generateImageWithDalle_no_key_counterexample:
  "generateImageWithDalle (w_envs 0) ''a neon flamingo'' [] = Inr DALLE_PLACEHOLDER_IMAGE_URL
   \<and> \<not> isl (generateImageWithDalle (w_envs 0) ''a neon flamingo'' [])"
  by (simp add: generateImageWithDalle_def)

section \<open>The fallback wrapper\<close>

lemma body_throws_iff: "body_throws r \<longleftrightarrow> (\<exists>e. r = HttpOk (BodyThrows e))"
  by (simp add: body_throws_def split: fetch_outcome.split body_outcome.split)

lemma fallback_returns_iff:
  "(\<exists>r. generateMemeImageWithFallback env prompt model key = Inr r)
     \<longleftrightarrow> \<not> (model = Dalle \<and> key \<noteq> [] \<and> body_throws (dalle_fetch env prompt key))"
proof (cases "model = Dalle \<and> key \<noteq> []")
  case True
  have "(\<exists>r. generateImageWithDalle env prompt key = Inr r)
          \<longleftrightarrow> \<not> (\<exists>e. generateImageWithDalle env prompt key = Inl e)"
    by (cases "generateImageWithDalle env prompt key") auto
  with True show ?thesis
    by (auto simp add: generateMemeImageWithFallback_def generateImageWithDalle_raises_iff
        body_throws_iff split: sum.splits)
next
  case False
  obtain url where "generateImage env prompt = Inr url"
    using generateImage_never_raises by blast
  with False show ?thesis
    by (auto simp add: generateMemeImageWithFallback_def)
qed

lemma fallback_model_used:
  "generateMemeImageWithFallback env prompt model key = Inr r
   \<Longrightarrow> snd r = (if model = Dalle \<and> key = [] then Gemini else model)"
  by (auto simp add: generateMemeImageWithFallback_def split: sum.splits if_splits)

lemma fallback_substitutes:
  "\<exists>url. generateImage env prompt = Inr url
         \<and> generateMemeImageWithFallback env prompt Dalle [] = Inr (url, Gemini)"
proof -
  obtain url where g: "generateImage env prompt = Inr url"
    using generateImage_never_raises by blast
  then have "generateMemeImageWithFallback env prompt Dalle [] = Inr (url, Gemini)"
    by (simp add: generateMemeImageWithFallback_def)
  with g show ?thesis by blast
qed

lemma fallback_gemini:
  "\<exists>url. generateImage env prompt = Inr url
         \<and> generateMemeImageWithFallback env prompt Gemini key = Inr (url, Gemini)"
proof -
  obtain url where g: "generateImage env prompt = Inr url"
    using generateImage_never_raises by blast
  then have "generateMemeImageWithFallback env prompt Gemini key = Inr (url, Gemini)"
    by (simp add: generateMemeImageWithFallback_def)
  with g show ?thesis by blast
qed

lemma fallback_dalle:
  "key \<noteq> [] \<Longrightarrow>
   generateMemeImageWithFallback env prompt Dalle key =
     (case generateImageWithDalle env prompt key of
        Inl e \<Rightarrow> Inl e | Inr url \<Rightarrow> Inr (url, Dalle))"
  by (simp add: generateMemeImageWithFallback_def)

text \<open>
  Claim C7. With dalle requested and no key the wrapper returns the image of
  \<open>generateImage\<close> tagged gemini and raises nothing (\<open>fallback_substitutes\<close>); with
  gemini requested it returns that image tagged gemini (\<open>fallback_gemini\<close>); with dalle
  requested and a key it passes on what \<open>generateImageWithDalle\<close> does
  (\<open>fallback_dalle\<close>), tagged dalle when that returns. It does not report in every
  other case: with dalle, a key and an \<open>ok\<close> response whose read throws, the wrapper
  raises, as here.
\<close>

theorem generateMemeImageWithFallback_raises:
  "generateMemeImageWithFallback (bad_envs 3) ''a neon flamingo'' Dalle ''sk-test''
     = Inl (JsError ''Unexpected end of JSON input'')"
  by (simp add: generateMemeImageWithFallback_def generateImageWithDalle_def bad_envs_def)

section \<open>The provider schedule\<close>

lemma schedule_length:
  "length (generatorSchedule pref) = gemini pref + dalle pref"
  by (simp add: generatorSchedule_def)

lemma scheduledModel_eq:
  "scheduledModel (generatorSchedule pref) index =
     (if index < gemini pref then Gemini
      else if index < gemini pref + dalle pref then Dalle else Gemini)"
  by (auto simp add: scheduledModel_def generatorSchedule_def nth_append)

lemma schedule_3_2:
  "map (scheduledModel (generatorSchedule \<lparr>gemini = 3, dalle = 2\<rparr>)) [0..<5]
     = [Gemini, Gemini, Gemini, Dalle, Dalle]"
  by (simp add: scheduledModel_eq upt_rec)

text \<open>
  Claim C10. For every approval history the two counts of the estimator add up to 5,
  the schedule built from them has length 5, and every index below 5 lies inside the
  schedule, so the lookup never takes the default.
\<close>

theorem schedule_covers_batch:
  "gemini (getModelPreference history) + dalle (getModelPreference history) = 5
   \<and> length (generatorSchedule (getModelPreference history)) = 5
   \<and> (\<forall>index<5. index < length (generatorSchedule (getModelPreference history))
         \<and> scheduledModel (generatorSchedule (getModelPreference history)) index
             = generatorSchedule (getModelPreference history) ! index)"
  by (simp add: schedule_length preference_sum scheduledModel_def)

theorem schedule_covers_batch_witness:
  "(4::nat) < 5
   \<and> generatorSchedule (getModelPreference w_history) = [Gemini, Gemini, Dalle, Dalle, Dalle]
   \<and> scheduledModel (generatorSchedule (getModelPreference w_history)) 4 = Dalle"
proof -
  have h: "(4::nat) < 5" by simp
  have s: "generatorSchedule (getModelPreference w_history) = [Gemini, Gemini, Dalle, Dalle, Dalle]"
    by (simp add: w_history_def getModelPreference_def generatorSchedule_def numeral_3_eq_3 numeral_2_eq_2)
  from schedule_covers_batch[of w_history] h
  have "scheduledModel (generatorSchedule (getModelPreference w_history)) 4
          = generatorSchedule (getModelPreference w_history) ! 4"
    by blast
  with s h show ?thesis by simp
qed

section \<open>One pipeline and the batch\<close>

lemma promise_all_Inr_iff:
  "promise_all rs = Inr xs \<longleftrightarrow> rs = map Inr xs"
proof (induction rs arbitrary: xs)
  case Nil
  show ?case by auto
next
  case (Cons r rs)
  show ?case
  proof (cases r)
    case (Inl e)
    then show ?thesis by (cases xs) auto
  next
    case (Inr x)
    show ?thesis
    proof (cases "promise_all rs")
      case (Inl e)
      with Cons[of "tl xs"] Inr show ?thesis by (cases xs) auto
    next
      case inr: (Inr ys)
      with Cons[of ys] Inr show ?thesis by (cases xs) auto
    qed
  qed
qed

lemma memePromise_returns_iff:
  "(\<exists>m. memePromise env uuids schedule key concept index = Inr m)
     \<longleftrightarrow> \<not> pipeline_throws env schedule key concept index"
proof -
  obtain alt where alt: "generateImageAltText env concept = Inr alt"
    using generateImageAltText_never_raises by blast
  have "(\<exists>m. memePromise env uuids schedule key concept index = Inr m)
          \<longleftrightarrow> (\<exists>r. generateMemeImageWithFallback env (imagePrompt concept)
                      (scheduledModel schedule index) key = Inr r)"
    by (auto simp add: memePromise_def alt split: sum.splits prod.splits)
  with fallback_returns_iff[of env "imagePrompt concept" "scheduledModel schedule index" key]
  show ?thesis
    unfolding pipeline_throws_def by blast
qed

lemma memePromise_fields:
  assumes "memePromise env uuids schedule key concept index = Inr m"
  shows "topText m = topText concept" "bottomText m = bottomText concept"
    "imagePrompt m = imagePrompt concept" "status m = Pending"
    "meme_id m = uuid_of_call uuids index"
    "modelUsed m = (if scheduledModel schedule index = Dalle \<and> key = [] then Gemini
                    else scheduledModel schedule index)"
proof -
  from assms obtain url used alt where
    f: "generateMemeImageWithFallback env (imagePrompt concept)
          (scheduledModel schedule index) key = Inr (url, used)"
    and m: "m = \<lparr>topText = topText concept, bottomText = bottomText concept,
                 imagePrompt = imagePrompt concept, modelUsed = used,
                 meme_id = uuid_of_call uuids index, imageUrl = url, altText = alt,
                 status = Pending\<rparr>"
    by (auto simp add: memePromise_def split: sum.splits prod.splits)
  from fallback_model_used[OF f]
  have u: "used = (if scheduledModel schedule index = Dalle \<and> key = [] then Gemini
                   else scheduledModel schedule index)" by simp
  show "topText m = topText concept" "bottomText m = bottomText concept"
    "imagePrompt m = imagePrompt concept" "status m = Pending"
    "meme_id m = uuid_of_call uuids index" by (simp_all add: m)
  show "modelUsed m = (if scheduledModel schedule index = Dalle \<and> key = [] then Gemini
                    else scheduledModel schedule index)" using u by (simp add: m)
qed

lemma batch_Inr_iff:
  assumes "concepts \<noteq> []"
  shows "processConceptsIntoMemes envs uuids (Inr (Some concepts)) pref key = Inr ms
     \<longleftrightarrow> length ms = length concepts
         \<and> (\<forall>i<length concepts.
               memePromise (envs i) uuids (generatorSchedule pref) key (concepts ! i) i = Inr (ms ! i))"
proof -
  let ?f = "\<lambda>(index, concept). memePromise (envs index) uuids (generatorSchedule pref) key concept index"
  have "processConceptsIntoMemes envs uuids (Inr (Some concepts)) pref key
          = promise_all (map ?f (enumerate 0 concepts))"
    using assms by (simp add: processConceptsIntoMemes_def)
  moreover have "map ?f (enumerate 0 concepts) = map Inr ms
     \<longleftrightarrow> length ms = length concepts
         \<and> (\<forall>i<length concepts.
               memePromise (envs i) uuids (generatorSchedule pref) key (concepts ! i) i = Inr (ms ! i))"
    by (auto simp add: list_eq_iff_nth_eq nth_enumerate_eq)
  ultimately show ?thesis
    by (simp add: promise_all_Inr_iff)
qed

lemma batch_returns:
  assumes ne: "concepts \<noteq> []"
    and ok: "\<forall>i<length concepts.
               \<not> pipeline_throws (envs i) (generatorSchedule pref) key (concepts ! i) i"
  shows "\<exists>ms. processConceptsIntoMemes envs uuids (Inr (Some concepts)) pref key = Inr ms"
proof -
  define ms where "ms = map (\<lambda>i. projr (memePromise (envs i) uuids (generatorSchedule pref) key
                                         (concepts ! i) i)) [0..<length concepts]"
  have "memePromise (envs i) uuids (generatorSchedule pref) key (concepts ! i) i = Inr (ms ! i)"
    if "i < length concepts" for i
  proof -
    from ok that obtain m where
      "memePromise (envs i) uuids (generatorSchedule pref) key (concepts ! i) i = Inr m"
      using memePromise_returns_iff by blast
    with that show ?thesis by (simp add: ms_def)
  qed
  moreover have "length ms = length concepts" by (simp add: ms_def)
  ultimately show ?thesis using batch_Inr_iff[OF ne] by blast
qed

lemma batch_InrD:
  assumes "concepts \<noteq> []"
    and "processConceptsIntoMemes envs uuids (Inr (Some concepts)) pref key = Inr ms"
  shows "length ms = length concepts"
    and "i < length concepts \<Longrightarrow>
           memePromise (envs i) uuids (generatorSchedule pref) key (concepts ! i) i = Inr (ms ! i)"
  using assms(2) unfolding batch_Inr_iff[OF assms(1)] by simp_all

lemma batch_model_used:
  assumes ne: "concepts \<noteq> []"
    and r: "processConceptsIntoMemes envs uuids (Inr (Some concepts)) pref key = Inr ms"
  shows "map modelUsed ms =
           map (\<lambda>i. if scheduledModel (generatorSchedule pref) i = Dalle \<and> key = [] then Gemini
                     else scheduledModel (generatorSchedule pref) i) [0..<length concepts]"
proof (rule nth_equalityI)
  show "length (map modelUsed ms) = length (map (\<lambda>i. if scheduledModel (generatorSchedule pref) i = Dalle \<and> key = [] then Gemini
                     else scheduledModel (generatorSchedule pref) i) [0..<length concepts])"
    using batch_InrD(1)[OF ne r] by simp
next
  fix i
  assume "i < length (map modelUsed ms)"
  then have i: "i < length concepts" using batch_InrD(1)[OF ne r] by simp
  have "modelUsed (ms ! i) = (if scheduledModel (generatorSchedule pref) i = Dalle \<and> key = [] then Gemini
                     else scheduledModel (generatorSchedule pref) i)"
    by (rule memePromise_fields(6)[OF batch_InrD(2)[OF ne r i]])
  with i batch_InrD(1)[OF ne r]
  show "map modelUsed ms ! i = map (\<lambda>i. if scheduledModel (generatorSchedule pref) i = Dalle \<and> key = [] then Gemini
                     else scheduledModel (generatorSchedule pref) i) [0..<length concepts] ! i"
    by simp
qed



text \<open>
  Claim C9. With no concept list or an empty one, batch assembly throws the error
  \<open>AI did not return any meme concepts.\<close> and returns no artifacts.
\<close>

theorem no_concepts_aborts:
  "processConceptsIntoMemes envs uuids (Inr None) pref key
     = Inl (JsError ''AI did not return any meme concepts.'')
   \<and> processConceptsIntoMemes envs uuids (Inr (Some [])) pref key
     = Inl (JsError ''AI did not return any meme concepts.'')
   \<and> generateMemes envs uuids query (Inr None) key url anon
     = Inl (JsError ''AI did not return any meme concepts.'')
   \<and> generateMemes envs uuids query (Inr (Some [])) key url anon
     = Inl (JsError ''AI did not return any meme concepts.'')"
  by (simp add: processConceptsIntoMemes_def generateMemes_def)


lemma w_len: "length w_concepts = 5"
  by (simp add: w_concepts_def)

lemma w_fetch_no_throw: "\<not> body_throws (dalle_fetch (w_envs i) p k)"
  by (simp add: w_envs_def w_services_def body_throws_def)

lemma w_no_throw:
  "\<forall>i<length w_concepts.
     \<not> pipeline_throws (w_envs i) (generatorSchedule \<lparr>gemini = 3, dalle = 2\<rparr>) ''sk-test''
         (w_concepts ! i) i"
  by (simp add: pipeline_throws_def w_fetch_no_throw)

lemma w_uuid_call: "uuid_of_call w_uuids i = ''uuid-'' @ replicate i CHR ''x''"
  by (simp add: w_uuids_def Abs_uuid_source_inverse inj_def)


text \<open>
  Claim C4. The schedule is gemini repeated \<open>g\<close> times then dalle repeated \<open>d\<close>
  times, and an index past its end reads as gemini. For five concepts, preference
  (3, 2) and an OpenAI key, the artifacts of a returned batch were made by gemini,
  gemini, gemini, dalle, dalle, and the batch returns exactly when no pipeline's read
  of a DALL-E response throws.
\<close>

theorem provider_schedule:
  "generatorSchedule pref = replicate (gemini pref) Gemini @ replicate (dalle pref) Dalle
   \<and> scheduledModel (generatorSchedule pref) index =
       (if index < gemini pref then Gemini
        else if index < gemini pref + dalle pref then Dalle else Gemini)
   \<and> (length concepts = 5 \<and> openAiApiKey \<noteq> [] \<longrightarrow>
        (\<forall>ms. processConceptsIntoMemes envs uuids (Inr (Some concepts)) \<lparr>gemini = 3, dalle = 2\<rparr>
                 openAiApiKey = Inr ms
              \<longrightarrow> map modelUsed ms = [Gemini, Gemini, Gemini, Dalle, Dalle])
        \<and> ((\<exists>ms. processConceptsIntoMemes envs uuids (Inr (Some concepts)) \<lparr>gemini = 3, dalle = 2\<rparr>
                   openAiApiKey = Inr ms)
             \<longleftrightarrow> (\<forall>i<5. \<not> pipeline_throws (envs i) (generatorSchedule \<lparr>gemini = 3, dalle = 2\<rparr>)
                              openAiApiKey (concepts ! i) i)))"
proof (intro conjI impI allI)
  show "generatorSchedule pref = replicate (gemini pref) Gemini @ replicate (dalle pref) Dalle"
    by (simp add: generatorSchedule_def)
  show "scheduledModel (generatorSchedule pref) index =
       (if index < gemini pref then Gemini
        else if index < gemini pref + dalle pref then Dalle else Gemini)"
    by (rule scheduledModel_eq)
next
  fix ms
  assume a: "length concepts = 5 \<and> openAiApiKey \<noteq> []"
    and r: "processConceptsIntoMemes envs uuids (Inr (Some concepts)) \<lparr>gemini = 3, dalle = 2\<rparr>
                 openAiApiKey = Inr ms"
  from a have ne: "concepts \<noteq> []" by auto
  from batch_model_used[OF ne r] a
  have "map modelUsed ms = map (scheduledModel (generatorSchedule \<lparr>gemini = 3, dalle = 2\<rparr>)) [0..<5]"
    by simp
  then show "map modelUsed ms = [Gemini, Gemini, Gemini, Dalle, Dalle]"
    by (simp only: schedule_3_2)
next
  assume a: "length concepts = 5 \<and> openAiApiKey \<noteq> []"
  then have ne: "concepts \<noteq> []" by auto
  have "(\<exists>ms. processConceptsIntoMemes envs uuids (Inr (Some concepts)) \<lparr>gemini = 3, dalle = 2\<rparr>
                   openAiApiKey = Inr ms)
             \<longleftrightarrow> (\<forall>i<length concepts.
                    \<not> pipeline_throws (envs i) (generatorSchedule \<lparr>gemini = 3, dalle = 2\<rparr>)
                              openAiApiKey (concepts ! i) i)"
  proof
    assume "\<exists>ms. processConceptsIntoMemes envs uuids (Inr (Some concepts)) \<lparr>gemini = 3, dalle = 2\<rparr>
                   openAiApiKey = Inr ms"
    then obtain ms where r: "processConceptsIntoMemes envs uuids (Inr (Some concepts))
         \<lparr>gemini = 3, dalle = 2\<rparr> openAiApiKey = Inr ms" ..
    have "\<forall>i<length concepts. \<exists>m.
          memePromise (envs i) uuids (generatorSchedule \<lparr>gemini = 3, dalle = 2\<rparr>) openAiApiKey
            (concepts ! i) i = Inr m"
      using batch_InrD(2)[OF ne r] by blast
    then show "\<forall>i<length concepts.
                    \<not> pipeline_throws (envs i) (generatorSchedule \<lparr>gemini = 3, dalle = 2\<rparr>)
                              openAiApiKey (concepts ! i) i"
      using memePromise_returns_iff by blast
  next
    assume "\<forall>i<length concepts.
                    \<not> pipeline_throws (envs i) (generatorSchedule \<lparr>gemini = 3, dalle = 2\<rparr>)
                              openAiApiKey (concepts ! i) i"
    with ne show "\<exists>ms. processConceptsIntoMemes envs uuids (Inr (Some concepts))
         \<lparr>gemini = 3, dalle = 2\<rparr> openAiApiKey = Inr ms"
      by (rule batch_returns)
  qed
  with a show "(\<exists>ms. processConceptsIntoMemes envs uuids (Inr (Some concepts)) \<lparr>gemini = 3, dalle = 2\<rparr>
                   openAiApiKey = Inr ms)
             \<longleftrightarrow> (\<forall>i<5. \<not> pipeline_throws (envs i) (generatorSchedule \<lparr>gemini = 3, dalle = 2\<rparr>)
                              openAiApiKey (concepts ! i) i)"
    by simp
qed

theorem provider_schedule_witness:
  "length w_concepts = 5 \<and> ''sk-test'' \<noteq> []
   \<and> (\<exists>ms. processConceptsIntoMemes w_envs w_uuids (Inr (Some w_concepts)) \<lparr>gemini = 3, dalle = 2\<rparr>
              ''sk-test'' = Inr ms
           \<and> map modelUsed ms = [Gemini, Gemini, Gemini, Dalle, Dalle])"
proof -
  have h: "length w_concepts = 5 \<and> ''sk-test'' \<noteq> []" by (simp add: w_len)
  note t = provider_schedule[of _ _ w_concepts "''sk-test''" w_envs]
  have nt: "\<forall>i<5. \<not> pipeline_throws (w_envs i) (generatorSchedule \<lparr>gemini = 3, dalle = 2\<rparr>)
                     ''sk-test'' (w_concepts ! i) i"
    using w_no_throw by (simp add: w_len)
  from t h nt obtain ms where
    r: "processConceptsIntoMemes w_envs w_uuids (Inr (Some w_concepts)) \<lparr>gemini = 3, dalle = 2\<rparr>
              ''sk-test'' = Inr ms"
    by blast
  from t h r have m: "map modelUsed ms = [Gemini, Gemini, Gemini, Dalle, Dalle]" by blast
  have "\<exists>ms. processConceptsIntoMemes w_envs w_uuids (Inr (Some w_concepts)) \<lparr>gemini = 3, dalle = 2\<rparr>
              ''sk-test'' = Inr ms
           \<and> map modelUsed ms = [Gemini, Gemini, Gemini, Dalle, Dalle]"
    by (rule exI[of _ ms]) (rule conjI[OF r m])
  with h show ?thesis by (intro conjI) (erule conjunct1, erule conjunct2, assumption)
qed

text \<open>
  Claim C8. The Gemini image path and the alt-text path never raise
  (\<open>generateImage_never_raises\<close>, \<open>generateImageAltText_never_raises\<close>) and fall back
  to the placeholder and to the fallback text. A pipeline scheduled on dalle with a
  key does raise when reading an \<open>ok\<close> response throws: here the fourth and fifth
  concepts of a batch get such a response and the whole batch is rejected.
\<close>

theorem batch_step_throws:
  "processConceptsIntoMemes bad_envs w_uuids (Inr (Some w_concepts)) \<lparr>gemini = 3, dalle = 2\<rparr> ''sk-test''
     = Inl (JsError ''Unexpected end of JSON input'')"
  by (simp add: processConceptsIntoMemes_def w_concepts_def w_concept_def enumerate_eq_zip
      upt_rec memePromise_def scheduledModel_eq generateMemeImageWithFallback_def
      generateImage_def generateImageWithDalle_def generateImageAltText_def
      bad_envs_def w_envs_def w_services_def w_uuid_call)

section \<open>The approval store\<close>

lemma str_includes_sublist: "str_includes s sub \<longleftrightarrow> sublist sub s"
  by (induction s) (simp_all add: sublist_Cons_right)

lemma str_includes_toLowerCase:
  assumes "str_includes s sub" and "toLowerCase sub = sub"
  shows "str_includes (toLowerCase s) sub"
proof -
  from assms(1) have "sublist (map toLowerChar sub) (map toLowerChar s)"
    unfolding str_includes_sublist by (rule map_mono_sublist)
  with assms(2) show ?thesis
    by (simp add: str_includes_sublist toLowerCase_def)
qed

lemma lower_security_policy: "toLowerCase ''security policy'' = ''security policy''"
  by (simp add: toLowerCase_def toLowerChar_def)



lemma uploadFailure_policy:
  "str_includes message ''security policy'' \<Longrightarrow> uploadFailure message = JsError POLICY_DENIED_UPLOAD"
  using str_includes_toLowerCase[OF _ lower_security_policy]
  by (simp add: uploadFailure_def Let_def)

lemma lower_row_level:
  "toLowerCase ''violates row-level security'' = ''violates row-level security''"
  by (simp add: toLowerCase_def toLowerChar_def)

lemma uploadFailure_row_level:
  "str_includes message ''violates row-level security''
   \<Longrightarrow> uploadFailure message = JsError POLICY_DENIED_UPLOAD"
  using str_includes_toLowerCase[OF _ lower_row_level]
  by (simp add: uploadFailure_def Let_def)





lemma w_meme_blob:
  "atob (w_store u) (second_segment (split_on CHR '','' (imageUrl w_meme))) = Inr ''ABC''"
  by (simp add: w_store_def w_meme_def second_segment_def)

lemma w_meme_path:
  "''public/'' @ meme_id w_meme @ ''.''
     @ second_segment (split_on CHR ''/''
         (if startsWith (imageUrl w_meme) ''data:image/png'' then ''image/png'' else ''image/jpeg''))
   = ''public/uuid-1.png''"
  by (simp add: w_meme_def second_segment_def startsWith_def)

lemma w_write_fails:
  "addApprovedMeme (w_store (Some message)) w_meme ''https://kmf.supabase.co'' ''anon-key''
     = (Inl (uploadFailure message), [Upload ''public/uuid-1.png'' ''ABC''])"
  unfolding addApprovedMeme_def Let_def w_meme_blob w_meme_path
  by (simp add: w_store_def)

lemma denied_includes: "str_includes denied_message ''security policy''"
  by (simp add: denied_message_def)


section \<open>The review session\<close>

lemma handleStatusChange_memes:
  "memes (handleStatusChange st i s)
     = map (\<lambda>meme. if meme_id meme = i then meme\<lparr>status := s\<rparr> else meme) (memes st)"
  by (simp add: handleStatusChange_def)

lemma status_change_twice:
  "map (\<lambda>meme. if meme_id meme = i then meme\<lparr>status := s2\<rparr> else meme)
     (map (\<lambda>meme. if meme_id meme = i then meme\<lparr>status := s1\<rparr> else meme) ms)
   = map (\<lambda>meme. if meme_id meme = i then meme\<lparr>status := s2\<rparr> else meme) ms"
  by (induction ms) simp_all

lemma status_after_change:
  "m' \<in> set (map (\<lambda>meme. if meme_id meme = i then meme\<lparr>status := s\<rparr> else meme) ms)
   \<Longrightarrow> meme_id m' = i \<Longrightarrow> status m' = s"
proof -
  assume "m' \<in> set (map (\<lambda>meme. if meme_id meme = i then meme\<lparr>status := s\<rparr> else meme) ms)"
    and i: "meme_id m' = i"
  then obtain x where x: "m' = (if meme_id x = i then x\<lparr>status := s\<rparr> else x)"
    by (auto simp only: set_map image_iff)
  show "status m' = s"
  proof (cases "meme_id x = i")
    case True
    with x have "m' = x\<lparr>status := s\<rparr>" by simp
    then show ?thesis by simp
  next
    case False
    with x have "m' = x" by simp
    with i False show ?thesis by simp
  qed
qed

lemma handleApprove_on_failure:
  assumes "isSupabaseConnected st"
    and "find (\<lambda>meme. meme_id meme = i) (memes st) = Some m"
    and "fst (addApprovedMeme env m (supabaseUrl st) (supabaseAnonKey st)) = Inl e"
  shows "memes (handleApprove env st i)
           = map (\<lambda>meme. if meme_id meme = i then meme\<lparr>status := Pending\<rparr> else meme) (memes st)"
proof -
  have "memes (handleApprove env st i)
          = memes (handleStatusChange (handleStatusChange st i Approved) i Pending)"
    using assms by (simp add: handleApprove_def Let_def handleStatusChange_def)
  then show ?thesis
    by (simp only: handleStatusChange_memes status_change_twice)
qed

lemma handleApprove_ok:
  assumes "isSupabaseConnected st"
    and "find (\<lambda>meme. meme_id meme = i) (memes st) = Some m"
    and "fst (addApprovedMeme env m (supabaseUrl st) (supabaseAnonKey st)) = Inr u"
  shows "memes (handleApprove env st i)
           = map (\<lambda>meme. if meme_id meme = i then meme\<lparr>status := Approved\<rparr> else meme) (memes st)"
  using assms
  by (simp add: handleApprove_def Let_def handleStatusChange_def)

lemma handleApprove_absent:
  assumes "find (\<lambda>meme. meme_id meme = i) (memes st) = None"
  shows "memes (handleApprove env st i) = memes st"
  using assms by (simp add: handleApprove_def)

lemma find_None_no_id:
  "find (\<lambda>meme. meme_id meme = i) ms = None \<Longrightarrow> m' \<in> set ms \<Longrightarrow> meme_id m' \<noteq> i"
  by (auto simp add: find_None_iff)

lemma filter_others_map:
  "[m' \<leftarrow> map (\<lambda>meme. if meme_id meme = i then meme\<lparr>status := s\<rparr> else meme) ms.
      meme_id m' \<noteq> i] = [m' \<leftarrow> ms. meme_id m' \<noteq> i]"
  by (induction ms) simp_all

lemma handleApprove_others:
  "[m' \<leftarrow> memes (handleApprove env st i). meme_id m' \<noteq> i] = [m' \<leftarrow> memes st. meme_id m' \<noteq> i]"
proof (cases "isSupabaseConnected st")
  case False
  then show ?thesis by (simp add: handleApprove_def)
next
  case True
  show ?thesis
  proof (cases "find (\<lambda>meme. meme_id meme = i) (memes st)")
    case None
    then show ?thesis by (simp add: handleApprove_absent)
  next
    case (Some m)
    show ?thesis
    proof (cases "fst (addApprovedMeme env m (supabaseUrl st) (supabaseAnonKey st))")
      case (Inl e)
      show ?thesis
        unfolding handleApprove_on_failure[OF True Some Inl] by (rule filter_others_map)
    next
      case (Inr u)
      show ?thesis
        unfolding handleApprove_ok[OF True Some Inr] by (rule filter_others_map)
    qed
  qed
qed

text \<open>
  Claim C1. With the backend connected, an approval whose store write fails leaves
  every artifact of that id at status pending; an artifact of that id is approved
  after the action only if the store write succeeded; artifacts of other ids are
  left as they were.
\<close>

theorem handleApprove_failed_write:
  assumes "isSupabaseConnected st"
  shows "(\<forall>m e. find (\<lambda>meme. meme_id meme = i) (memes st) = Some m
              \<and> fst (addApprovedMeme env m (supabaseUrl st) (supabaseAnonKey st)) = Inl e
            \<longrightarrow> (\<forall>m' \<in> set (memes (handleApprove env st i)).
                    meme_id m' = i \<longrightarrow> status m' = Pending))
   \<and> (\<forall>m' \<in> set (memes (handleApprove env st i)).
          meme_id m' = i \<and> status m' = Approved
            \<longrightarrow> (\<exists>m. find (\<lambda>meme. meme_id meme = i) (memes st) = Some m
                     \<and> fst (addApprovedMeme env m (supabaseUrl st) (supabaseAnonKey st)) = Inr ()))
   \<and> [m' \<leftarrow> memes (handleApprove env st i). meme_id m' \<noteq> i] = [m' \<leftarrow> memes st. meme_id m' \<noteq> i]"
proof (intro conjI allI impI ballI)
  fix m e m'
  assume a: "find (\<lambda>meme. meme_id meme = i) (memes st) = Some m
              \<and> fst (addApprovedMeme env m (supabaseUrl st) (supabaseAnonKey st)) = Inl e"
    and m': "m' \<in> set (memes (handleApprove env st i))" and i: "meme_id m' = i"
  from a have f: "find (\<lambda>meme. meme_id meme = i) (memes st) = Some m"
    and w: "fst (addApprovedMeme env m (supabaseUrl st) (supabaseAnonKey st)) = Inl e"
    by (rule conjunct1, rule conjunct2)
  show "status m' = Pending"
    by (rule status_after_change[OF m'[unfolded handleApprove_on_failure[OF assms f w]] i])
next
  fix m'
  assume m': "m' \<in> set (memes (handleApprove env st i))"
    and a: "meme_id m' = i \<and> status m' = Approved"
  show "\<exists>m. find (\<lambda>meme. meme_id meme = i) (memes st) = Some m
           \<and> fst (addApprovedMeme env m (supabaseUrl st) (supabaseAnonKey st)) = Inr ()"
  proof (cases "find (\<lambda>meme. meme_id meme = i) (memes st)")
    case None
    with m' have "m' \<in> set (memes st)" by (simp only: handleApprove_absent)
    from find_None_no_id[OF None this] a show ?thesis by simp
  next
    case (Some m)
    show ?thesis
    proof (cases "fst (addApprovedMeme env m (supabaseUrl st) (supabaseAnonKey st))")
      case (Inl e)
      from a have i: "meme_id m' = i" by (rule conjunct1)
      have "status m' = Pending"
        by (rule status_after_change[OF m'[unfolded handleApprove_on_failure[OF assms Some Inl]] i])
      with a show ?thesis by simp
    next
      case (Inr u)
      with Some show ?thesis by simp
    qed
  qed
next
  show "[m' \<leftarrow> memes (handleApprove env st i). meme_id m' \<noteq> i] = [m' \<leftarrow> memes st. meme_id m' \<noteq> i]"
    by (rule handleApprove_others)
qed

theorem handleApprove_failed_write_witness:
  "isSupabaseConnected w_state
   \<and> find (\<lambda>meme. meme_id meme = ''uuid-1'') (memes w_state) = Some w_meme
   \<and> fst (addApprovedMeme (w_store (Some denied_message)) w_meme (supabaseUrl w_state)
            (supabaseAnonKey w_state)) = Inl (JsError POLICY_DENIED_UPLOAD)
   \<and> status (hd (memes (handleApprove (w_store (Some denied_message)) w_state ''uuid-1''))) = Pending"
proof -
  have c: "isSupabaseConnected w_state" by (simp add: w_state_def)
  have f: "find (\<lambda>meme. meme_id meme = ''uuid-1'') (memes w_state) = Some w_meme"
    by (simp add: w_state_def w_meme_def)
  have w: "fst (addApprovedMeme (w_store (Some denied_message)) w_meme (supabaseUrl w_state)
            (supabaseAnonKey w_state)) = Inl (JsError POLICY_DENIED_UPLOAD)"
    by (simp add: w_state_def w_write_fails uploadFailure_policy denied_includes)
  let ?ms = "memes (handleApprove (w_store (Some denied_message)) w_state ''uuid-1'')"
  have ne: "?ms \<noteq> []"
    unfolding handleApprove_on_failure[OF c f w] by (simp add: w_state_def)
  have i: "meme_id (hd ?ms) = ''uuid-1''"
    unfolding handleApprove_on_failure[OF c f w] by (simp add: w_state_def w_meme_def)
  from ne have mem: "hd ?ms \<in> set ?ms" by (rule hd_in_set)
  from handleApprove_failed_write[OF c, of "''uuid-1''" "w_store (Some denied_message)"] f w
  have "\<forall>m' \<in> set ?ms. meme_id m' = ''uuid-1'' \<longrightarrow> status m' = Pending"
    by blast
  with mem i have "status (hd ?ms) = Pending" by blast
  with c f w show ?thesis by (intro conjI)
qed

end
